theory Spec2Isabelle
  imports Complex_Main
begin

section \<open>The job-distribution server of starship (src/starship/servers/server.py)\<close>

text \<open>
  The server keeps two dictionaries in memory: \<open>metadata\<close>, one entry per video, and
  \<open>workers_seen\<close>, one entry per worker that has polled. Two HTTP routes read and
  write them (\<open>/next_video\<close> with GET and POST, \<open>/status\<close>), and a background job
  (\<open>_check_and_retry_downloads\<close>) sweeps \<open>metadata\<close> every five seconds.

  The model is a shallow embedding with explicit state passing. Every handler takes the
  state and returns its reply together with the state it leaves behind; an exception that
  the source lets escape is a value \<open>Inl e\<close>, and the state returned with it holds
  whatever the handler had already written when it raised. Each operation runs to its
  end before the next one starts, and reads the clock once (\<open>now\<close>, the value of
  \<open>time.time()\<close>, idealised as a real number).
\<close>

subsection \<open>JSON values\<close>

text \<open>
  What \<open>request.get_json()\<close> and \<open>json.load\<close> produce. Numbers with a fraction or an
  exponent (Python floats) are left out. A JSON object used as a Python dictionary with
  string keys is a map \<open>jdict\<close>.
\<close>

datatype jval =
    JNull
  | JBool bool
  | JInt int
  | JStr string
  | JArr "jval list"
  | JObj "(string \<times> jval) list"

type_synonym jdict = "string \<rightharpoonup> jval"

text \<open>The exceptions that the handlers can let escape.\<close>

datatype exn = KeyError | TypeError | BadRequestKeyError | StopIteration

subsection \<open>The data model\<close>

text \<open>
  The field \<open>status\<close> of a metadata entry only ever holds one of the five string
  literals \<open>"waiting"\<close>, \<open>"downloading"\<close>, \<open>"finished"\<close>, \<open>"skipped"\<close>,
  \<open>"failed"\<close>; they are the constructors of \<open>vstatus\<close>.
\<close>

datatype vstatus = Waiting | Downloading | Finished | Skipped | Failed

text \<open>One value of \<open>metadata\<close>: the dictionary literal of \<open>main\<close>, field for field.\<close>

record video_meta =
  status :: vstatus
  error :: "jval option"
  retries :: int
  start_time :: "real option"
  end_time :: "real option"
  worker_id :: "string option"

text \<open>
  One value of \<open>workers_seen\<close>. The source's keys \<open>"status"\<close> and \<open>"message"\<close> are
  \<open>w_status\<close> and \<open>w_message\<close> here, apart from the fields of \<open>video_meta\<close>.
\<close>

record worker =
  last_seen :: real
  w_status :: jval
  notified_finished :: bool
  w_message :: jval

text \<open>
  \<open>metadata\<close> is an association list in the dictionary's insertion order, which is the
  order \<open>metadata.items()\<close> and \<open>metadata.values()\<close> iterate in. Its keys never
  change after \<open>main\<close> (lemma \<open>reachable_keys\<close>).
\<close>

record state =
  metadata :: "(nat \<times> video_meta) list"
  workers_seen :: "string \<rightharpoonup> worker"

text \<open>The two flags the server logic reads: \<open>FLAGS.timeout\<close> and \<open>FLAGS.retries\<close>.\<close>

record flags =
  FLAGS_timeout :: int
  FLAGS_retries :: int

subsection \<open>\<open>main\<close>: the initial ledger\<close>

text \<open>
  \<open>video_data = dict(enumerate(inputs))\<close> and \<open>videos = set(video_data.keys())\<close>.
  The keys are \<open>0, 1, ..., len(inputs) - 1\<close>; CPython iterates a set of such small
  integers in ascending order, which is the insertion order of \<open>metadata\<close>.
\<close>

definition video_data :: "jdict list \<Rightarrow> (nat \<times> jdict) list" where
  "video_data inputs = enumerate 0 inputs"

definition videos :: "jdict list \<Rightarrow> nat list" where
  "videos inputs = map fst (video_data inputs)"

definition initial_meta :: video_meta where
  "initial_meta =
     \<lparr>status = Waiting, error = None, retries = 0,
      start_time = None, end_time = None, worker_id = None\<rparr>"

definition main :: "jdict list \<Rightarrow> state" where
  "main inputs =
     \<lparr>metadata = map (\<lambda>k. (k, initial_meta)) (videos inputs),
      workers_seen = Map.empty\<rparr>"

subsection \<open>\<open>_check_and_retry_downloads\<close>: the reclaim sweep\<close>

text \<open>
  The loop over \<open>metadata.items()\<close>. The test is \<open>status == "downloading" and
  time.time() - start_time > FLAGS.timeout\<close>: the subtraction is only evaluated for a
  downloading entry, and raises \<open>TypeError\<close> when \<open>start_time\<close> is \<open>None\<close>. The
  entries before the one that raises keep what the loop wrote to them.
\<close>

definition timed_out :: "video_meta \<Rightarrow> video_meta" where
  "timed_out data =
     data\<lparr>status := Waiting,
          retries := retries data + 1,
          error := Some (JStr ''Timeout waiting on worker'')\<rparr>"

fun check_and_retry_downloads ::
  "flags \<Rightarrow> real \<Rightarrow> (nat \<times> video_meta) list \<Rightarrow> (nat \<times> video_meta) list \<times> exn option" where
  "check_and_retry_downloads F now [] = ([], None)"
| "check_and_retry_downloads F now ((video_id, data) # rest) =
     (if status data = Downloading then
        (case start_time data of
           None \<Rightarrow> ((video_id, data) # rest, Some TypeError)
         | Some t \<Rightarrow>
             (case check_and_retry_downloads F now rest of
                (rest', e) \<Rightarrow>
                  ((video_id, if now - t > real_of_int (FLAGS_timeout F)
                              then timed_out data else data) # rest', e)))
      else
        (case check_and_retry_downloads F now rest of
           (rest', e) \<Rightarrow> ((video_id, data) # rest', e)))"

text \<open>One run of the scheduler's job on the shared dictionary.\<close>

definition sweep :: "flags \<Rightarrow> real \<Rightarrow> state \<Rightarrow> state" where
  "sweep F now s = s\<lparr>metadata := fst (check_and_retry_downloads F now (metadata s))\<rparr>"

subsection \<open>\<open>next_video\<close>, method GET: a worker asks for work\<close>

text \<open>
  The body of the loop \<open>for video_id in videos\<close> that runs when the worker reports a
  status other than \<open>"ok"\<close>.
\<close>

definition redirect :: "string \<Rightarrow> string \<Rightarrow> video_meta \<Rightarrow> video_meta" where
  "redirect wid wmsg data =
     (if status data = Downloading \<and> worker_id data = Some wid
      then data\<lparr>status := Waiting, error := Some (JStr wmsg), retries := retries data + 1\<rparr>
      else data)"

text \<open>The four assignments that hand out \<open>next_video_id\<close>.\<close>

definition assign :: "real \<Rightarrow> video_meta \<Rightarrow> video_meta" where
  "assign now data =
     data\<lparr>status := Downloading, error := None, start_time := Some now, end_time := None\<rparr>"

text \<open>\<open>metadata[k][...] = ...\<close>: the entry under key \<open>k\<close> is rewritten in place.\<close>

definition update_meta ::
  "nat \<Rightarrow> (video_meta \<Rightarrow> video_meta) \<Rightarrow> (nat \<times> video_meta) list \<Rightarrow> (nat \<times> video_meta) list" where
  "update_meta k f md = map (\<lambda>(k', data). if k' = k then (k', f data) else (k', data)) md"

definition is_waiting :: "nat \<times> video_meta \<Rightarrow> bool" where
  "is_waiting kv = (status (snd kv) = Waiting)"

definition is_downloading :: "nat \<times> video_meta \<Rightarrow> bool" where
  "is_downloading kv = (status (snd kv) = Downloading)"

text \<open>
  \<open>request.args[...]\<close> raises \<open>BadRequestKeyError\<close> for a missing parameter; all three
  are read before \<open>workers_seen\<close> is written. The reply \<open>{"_id": next_video_id,
  **video_data[next_video_id]}\<close> is the payload with \<open>"_id"\<close> added; as in the
  dictionary literal, a payload field of that name comes later and takes precedence.
\<close>

definition next_video_GET ::
  "jdict list \<Rightarrow> real \<Rightarrow> (string \<rightharpoonup> string) \<Rightarrow> state \<Rightarrow> (exn + jdict) \<times> state" where
  "next_video_GET inputs now args s =
     (case (args ''worker_id'', args ''worker_status'', args ''worker_message'') of
        (Some wid, Some wstatus, Some wmsg) \<Rightarrow>
          (let s1 = s\<lparr>workers_seen := (workers_seen s)(wid \<mapsto>
                        \<lparr>last_seen = now, w_status = JStr wstatus,
                         notified_finished = False, w_message = JStr wmsg\<rparr>)\<rparr>
           in
             if wstatus \<noteq> ''ok'' then
               (Inr [''finished'' \<mapsto> JBool True],
                s1\<lparr>metadata := map (\<lambda>(video_id, data). (video_id, redirect wid wmsg data))
                                   (metadata s1)\<rparr>)
             else if \<not> list_ex is_waiting (metadata s1) then
               (if list_ex is_downloading (metadata s1)
                then (Inr [''pending_finish'' \<mapsto> JBool True], s1)
                else (Inr [''finished'' \<mapsto> JBool True], s1))
             else
               (case find is_waiting (metadata s1) of
                  None \<Rightarrow> (Inl StopIteration, s1)
                | Some (next_video_id, _) \<Rightarrow>
                    (let s2 = s1\<lparr>metadata := update_meta next_video_id (assign now) (metadata s1)\<rparr>
                     in case map_of (video_data inputs) next_video_id of
                          None \<Rightarrow> (Inl KeyError, s2)
                        | Some payload \<Rightarrow>
                            (Inr ([''_id'' \<mapsto> JInt (int next_video_id)] ++ payload), s2))))
      | _ \<Rightarrow> (Inl BadRequestKeyError, s))"

subsection \<open>\<open>next_video\<close>, method POST: a worker reports an outcome\<close>

text \<open>
  \<open>metadata[video_id]\<close> with \<open>video_id\<close> taken from the request body. The keys of
  \<open>metadata\<close> are integers: an integer finds its entry, \<open>true\<close> and \<open>false\<close> are
  equal to \<open>1\<close> and \<open>0\<close> in Python and hash alike, a string or \<open>null\<close> is never a
  key (\<open>KeyError\<close>), a list or a dictionary cannot be hashed (\<open>TypeError\<close>).
\<close>

definition has_key :: "(nat \<times> video_meta) list \<Rightarrow> int \<Rightarrow> exn + nat" where
  "has_key md i =
     (if 0 \<le> i \<and> nat i \<in> set (map fst md) then Inr (nat i) else Inl KeyError)"

fun metadata_key :: "(nat \<times> video_meta) list \<Rightarrow> jval \<Rightarrow> exn + nat" where
  "metadata_key md (JInt i) = has_key md i"
| "metadata_key md (JBool b) = has_key md (if b then 1 else 0)"
| "metadata_key md (JStr v) = Inl KeyError"
| "metadata_key md JNull = Inl KeyError"
| "metadata_key md (JArr vs) = Inl TypeError"
| "metadata_key md (JObj kvs) = Inl TypeError"

text \<open>The two branches on \<open>data["status"]\<close>, as one update of the entry.\<close>

definition report :: "flags \<Rightarrow> real \<Rightarrow> jval \<Rightarrow> video_meta \<Rightarrow> video_meta" where
  "report F now st data =
     (if st = JStr ''ok'' \<or> st = JStr ''skipped'' then
        data\<lparr>status := (if st = JStr ''ok'' then Finished else Skipped),
             end_time := Some now,
             error := None\<rparr>
      else
        (let data1 = data\<lparr>end_time := Some now, error := Some st\<rparr>
         in if retries data1 < FLAGS_retries F
            then data1\<lparr>status := Waiting, retries := retries data1 + 1\<rparr>
            else data1\<lparr>status := Failed\<rparr>))"

text \<open>
  "Update the last workers": \<open>data["worker_id"] in workers_seen\<close> raises \<open>TypeError\<close>
  for a list or a dictionary; the keys of \<open>workers_seen\<close> are strings, so no other
  value than a string is found there.
\<close>

definition touch :: "real \<Rightarrow> jdict \<Rightarrow> worker \<Rightarrow> worker" where
  "touch now data w =
     w\<lparr>last_seen := now,
       w_status := (case data ''worker_status'' of None \<Rightarrow> w_status w | Some v \<Rightarrow> v),
       w_message := (case data ''worker_message'' of None \<Rightarrow> w_message w | Some v \<Rightarrow> v)\<rparr>"

fun update_worker :: "real \<Rightarrow> jdict \<Rightarrow> jval \<Rightarrow> state \<Rightarrow> (exn + jdict) \<times> state" where
  "update_worker now data (JStr wid) s =
     (Inr [''status'' \<mapsto> JStr ''ok''],
      (case workers_seen s wid of
         None \<Rightarrow> s
       | Some w \<Rightarrow> s\<lparr>workers_seen := (workers_seen s)(wid \<mapsto> touch now data w)\<rparr>))"
| "update_worker now data (JArr vs) s = (Inl TypeError, s)"
| "update_worker now data (JObj kvs) s = (Inl TypeError, s)"
| "update_worker now data v s = (Inr [''status'' \<mapsto> JStr ''ok''], s)"

text \<open>
  The request body, when there is one, is a JSON object, as in the wire format; \<open>None\<close>
  is \<open>request.get_json()\<close> returning \<open>None\<close>.
\<close>

definition next_video_POST ::
  "flags \<Rightarrow> real \<Rightarrow> jdict option \<Rightarrow> state \<Rightarrow> (exn + jdict) \<times> state" where
  "next_video_POST F now body s =
     (case body of
        None \<Rightarrow> (Inr [''error'' \<mapsto> JStr ''No data provided''], s)
      | Some data \<Rightarrow>
         (case data ''video_id'' of
            None \<Rightarrow> (Inr [''error'' \<mapsto> JStr ''No video_id provided''], s)
          | Some video_id \<Rightarrow>
             (case data ''status'' of
                None \<Rightarrow> (Inr [''error'' \<mapsto> JStr ''No status provided''], s)
              | Some st \<Rightarrow>
                 (case data ''worker_id'' of
                    None \<Rightarrow> (Inr [''error'' \<mapsto> JStr ''No worker_id provided''], s)
                  | Some wid \<Rightarrow>
                     (case metadata_key (metadata s) video_id of
                        Inl e \<Rightarrow> (Inl e, s)
                      | Inr k \<Rightarrow>
                          update_worker now data wid
                            (s\<lparr>metadata := update_meta k (report F now st) (metadata s)\<rparr>))))))"

datatype request = GET "string \<rightharpoonup> string" | POST "jdict option"

fun next_video ::
  "flags \<Rightarrow> jdict list \<Rightarrow> real \<Rightarrow> request \<Rightarrow> state \<Rightarrow> (exn + jdict) \<times> state" where
  "next_video F inputs now (GET args) s = next_video_GET inputs now args s"
| "next_video F inputs now (POST body) s = next_video_POST F now body s"

subsection \<open>\<open>status\<close>: the aggregate report\<close>

text \<open>
  The dictionary \<open>/status\<close> returns, key for key (\<open>s_done\<close> is the key \<open>"done"\<close>).
  \<open>len(videos)\<close> counts the keys of \<open>video_data\<close>; every other number counts entries
  of \<open>metadata\<close>.
\<close>

record status_report =
  s_total :: nat
  s_finished :: nat
  s_failed :: nat
  s_waiting :: nat
  s_downloading :: nat
  s_skipped :: nat
  s_retrying :: nat
  s_workers :: "string \<rightharpoonup> worker"
  s_done :: bool

definition status_route :: "jdict list \<Rightarrow> state \<Rightarrow> status_report" where
  "status_route inputs s =
     (let vs = map snd (metadata s) in
      \<lparr>s_total = length (videos inputs),
       s_finished = length (filter (\<lambda>v. status v \<in> {Finished, Skipped, Failed}) vs),
       s_failed = length (filter (\<lambda>v. status v = Failed) vs),
       s_waiting = length (filter (\<lambda>v. status v = Waiting) vs),
       s_downloading = length (filter (\<lambda>v. status v = Downloading) vs),
       s_skipped = length (filter (\<lambda>v. status v = Skipped) vs),
       s_retrying = length (filter (\<lambda>v. status v = Waiting \<and> retries v > 0) vs),
       s_workers = workers_seen s,
       s_done = list_all (\<lambda>v. status v \<notin> {Waiting, Downloading}) vs\<rparr>)"

subsection \<open>Reachable states\<close>

text \<open>
  The states the server can be in: the one \<open>main\<close> builds, and every state a request
  or a run of the sweep leaves behind, at any clock reading and whether or not the
  request raised.
\<close>

inductive reachable :: "flags \<Rightarrow> jdict list \<Rightarrow> state \<Rightarrow> bool" for F inputs where
  start: "reachable F inputs (main inputs)"
| request: "reachable F inputs s \<Longrightarrow> reachable F inputs (snd (next_video F inputs now req s))"
| swept: "reachable F inputs s \<Longrightarrow> reachable F inputs (sweep F now s)"

subsection \<open>Concrete requests and ledgers\<close>

text \<open>
  The flag defaults, a ledger of three videos and one of a single video, and the two
  requests as the worker sends them: the poll
  \<open>GET /next_video?worker_id=..&worker_status=..&worker_message=..\<close> and the report
  \<open>POST /next_video\<close> with \<open>video_id\<close>, \<open>status\<close> and \<open>worker_id\<close>.
\<close>

definition ex_flags :: flags where
  "ex_flags = \<lparr>FLAGS_timeout = 60, FLAGS_retries = 3\<rparr>"

definition ex_inputs :: "jdict list" where
  "ex_inputs =
     [[''url'' \<mapsto> JStr ''u0''], [''url'' \<mapsto> JStr ''u1''], [''url'' \<mapsto> JStr ''u2'']]"

definition ex_one :: "jdict list" where
  "ex_one = [[''url'' \<mapsto> JStr ''u0'']]"

definition poll :: "string \<Rightarrow> string \<Rightarrow> string \<Rightarrow> request" where
  "poll wid wstatus wmsg =
     GET [''worker_id'' \<mapsto> wid, ''worker_status'' \<mapsto> wstatus, ''worker_message'' \<mapsto> wmsg]"

definition outcome :: "int \<Rightarrow> string \<Rightarrow> string \<Rightarrow> request" where
  "outcome k st wid =
     POST (Some [''video_id'' \<mapsto> JInt k, ''status'' \<mapsto> JStr st, ''worker_id'' \<mapsto> JStr wid])"

text \<open>The single video after worker A has taken it at time 0 and reported \<open>ok\<close> at time 1.\<close>

definition one_done :: state where
  "one_done =
     snd (next_video ex_flags ex_one 1 (outcome 0 ''ok'' ''A'')
       (snd (next_video ex_flags ex_one 0 (poll ''A'' ''ok'' []) (main ex_one))))"

section \<open>Properties\<close>

subsection \<open>The keys of \<open>metadata\<close> never change\<close>

lemma sweep_keys: "map fst (fst (check_and_retry_downloads F now md)) = map fst md"
  by (induction md) (auto split: option.splits prod.splits)

lemma update_meta_keys: "map fst (update_meta k f md) = map fst md"
  by (induction md) (auto simp: update_meta_def)

lemma next_video_GET_keys:
  "map fst (metadata (snd (next_video_GET inputs now args s))) = map fst (metadata s)"
  by (auto simp: next_video_GET_def Let_def update_meta_keys comp_def case_prod_unfold
           split: option.splits prod.splits)

lemma update_worker_metadata: "metadata (snd (update_worker now data wid s)) = metadata s"
  by (cases wid) (auto split: option.splits)

lemma next_video_POST_keys:
  "map fst (metadata (snd (next_video_POST F now body s))) = map fst (metadata s)"
  by (auto simp: next_video_POST_def update_worker_metadata update_meta_keys
           split: option.splits sum.splits)

lemma next_video_keys:
  "map fst (metadata (snd (next_video F inputs now req s))) = map fst (metadata s)"
  by (cases req) (simp_all add: next_video_GET_keys next_video_POST_keys)

lemma videos_upt: "videos inputs = [0..<length inputs]"
  by (simp add: videos_def video_data_def enumerate_eq_zip)

lemma reachable_keys: "reachable F inputs s \<Longrightarrow> map fst (metadata s) = videos inputs"
  by (induction rule: reachable.induct)
     (simp_all add: main_def comp_def next_video_keys sweep_def sweep_keys)

subsection \<open>Properties of single entries that every operation preserves\<close>

lemma sweep_pres:
  assumes "\<And>d. P d \<Longrightarrow> P (timed_out d)" and "\<forall>kv \<in> set md. P (snd kv)"
  shows "\<forall>kv \<in> set (fst (check_and_retry_downloads F now md)). P (snd kv)"
  using assms(2)
proof (induction md)
  case Nil
  show ?case by simp
next
  case (Cons a md)
  obtain k d where a: "a = (k, d)" by (cases a)
  obtain r e where r: "check_and_retry_downloads F now md = (r, e)"
    by (cases "check_and_retry_downloads F now md")
  have "\<forall>kv\<in>set r. P (snd kv)" using Cons r by simp
  moreover have "P d" "P (timed_out d)" using Cons.prems a assms(1) by simp_all
  ultimately show ?case using Cons.prems
    by (simp add: a r split: option.splits)
qed

lemma update_meta_pres:
  assumes "\<And>d. P d \<Longrightarrow> P (f d)" and "\<forall>kv \<in> set md. P (snd kv)"
  shows "\<forall>kv \<in> set (update_meta k f md). P (snd kv)"
  using assms by (auto simp: update_meta_def)

lemma next_video_GET_pres:
  assumes "\<And>d w m. P d \<Longrightarrow> P (redirect w m d)" and "\<And>d. P d \<Longrightarrow> P (assign now d)"
    and "\<forall>kv \<in> set (metadata s). P (snd kv)"
  shows "\<forall>kv \<in> set (metadata (snd (next_video_GET inputs now args s))). P (snd kv)"
  using assms(3) update_meta_pres[of P "assign now" "metadata s", OF assms(2)]
  by (auto simp: next_video_GET_def Let_def assms(1) split: option.splits prod.splits)

lemma next_video_POST_pres:
  assumes "\<And>d st. P d \<Longrightarrow> P (report F now st d)"
    and "\<forall>kv \<in> set (metadata s). P (snd kv)"
  shows "\<forall>kv \<in> set (metadata (snd (next_video_POST F now body s))). P (snd kv)"
  using assms(2) update_meta_pres[of P "report F now _" "metadata s", OF assms(1)]
  by (auto simp: next_video_POST_def update_worker_metadata split: option.splits sum.splits)

lemma reachable_pres:
  assumes "reachable F inputs s"
    and "P initial_meta"
    and "\<And>d. P d \<Longrightarrow> P (timed_out d)"
    and "\<And>d w m. P d \<Longrightarrow> P (redirect w m d)"
    and "\<And>d now. P d \<Longrightarrow> P (assign now d)"
    and "\<And>d now st. P d \<Longrightarrow> P (report F now st d)"
  shows "\<forall>kv \<in> set (metadata s). P (snd kv)"
  using assms(1)
proof (induction rule: reachable.induct)
  case start
  show ?case by (simp add: main_def assms(2))
next
  case (request s now req)
  show ?case
  proof (cases req)
    case (GET args)
    then show ?thesis
      using next_video_GET_pres[of P now s inputs args] assms(4,5) request.IH by simp
  next
    case (POST body)
    then show ?thesis
      using next_video_POST_pres[of P F now s body] assms(6) request.IH by simp
  qed
next
  case (swept s now)
  then show ?case
    using sweep_pres[of P "metadata s" F now] assms(3) by (simp add: sweep_def)
qed

text \<open>
  An entry that is \<open>"downloading"\<close> has its \<open>start_time\<close> set: the sweep's
  subtraction never meets \<open>None\<close> in a reachable state.
\<close>

lemma reachable_start_time:
  assumes "reachable F inputs s" and "(k, d) \<in> set (metadata s)" and "status d = Downloading"
  shows "start_time d \<noteq> None"
proof -
  let ?P = "\<lambda>d. status d = Downloading \<longrightarrow> start_time d \<noteq> None"
  have "\<forall>kv \<in> set (metadata s). ?P (snd kv)"
    using assms(1)
    by (rule reachable_pres)
       (simp_all add: initial_meta_def timed_out_def redirect_def assign_def report_def Let_def)
  from bspec[OF this assms(2)] assms(3) show ?thesis by simp
qed

text \<open>
  No operation writes the field \<open>worker_id\<close> of an entry: it is \<open>None\<close> in every
  entry of every reachable state.
\<close>

lemma reachable_worker_id:
  assumes "reachable F inputs s" and "(k, d) \<in> set (metadata s)"
  shows "worker_id d = None"
proof -
  have "\<forall>kv \<in> set (metadata s). worker_id (snd kv) = None"
    using assms(1)
    by (rule reachable_pres)
       (simp_all add: initial_meta_def timed_out_def redirect_def assign_def report_def Let_def)
  from bspec[OF this assms(2)] show ?thesis by simp
qed

subsection \<open>Evaluating the handlers on the concrete ledgers\<close>

lemmas handler_defs =
  next_video_GET_def next_video_POST_def Let_def is_waiting_def is_downloading_def
  update_meta_def assign_def redirect_def report_def has_key_def touch_def
  video_data_def videos_def poll_def outcome_def ex_flags_def

lemma main_ex:
  "main ex_inputs =
     \<lparr>metadata = [(0, initial_meta), (1, initial_meta), (2, initial_meta)],
      workers_seen = Map.empty\<rparr>"
  by (simp add: main_def videos_def video_data_def ex_inputs_def)

lemma main_one: "main ex_one = \<lparr>metadata = [(0, initial_meta)], workers_seen = Map.empty\<rparr>"
  by (simp add: main_def videos_def video_data_def ex_one_def)

lemma one_done_metadata:
  "metadata one_done =
     [(0, \<lparr>status = Finished, error = None, retries = 0,
           start_time = Some 0, end_time = Some 1, worker_id = None\<rparr>)]"
  unfolding one_done_def main_one
  by (simp add: initial_meta_def handler_defs ex_one_def)

subsection \<open>The \<open>done\<close> flag of \<open>/status\<close>\<close>

lemma terminal_iff: "(st \<notin> {Waiting, Downloading}) = (st \<in> {Finished, Skipped, Failed})"
  by (cases st) simp_all

text \<open>
  Claim C5. The \<open>done\<close> flag that \<open>/status\<close> returns is true exactly when the
  \<open>waiting\<close> count and the \<open>downloading\<close> count of the same reply are both zero, and
  exactly when every entry's status is one of finished, skipped, failed.
\<close>

theorem status_done_iff:
  "(s_done (status_route inputs s) \<longleftrightarrow>
      s_waiting (status_route inputs s) = 0 \<and> s_downloading (status_route inputs s) = 0)
   \<and> (s_done (status_route inputs s) \<longleftrightarrow>
      (\<forall>kv \<in> set (metadata s). status (snd kv) \<in> {Finished, Skipped, Failed}))"
proof -
  have a: "s_done (status_route inputs s) \<longleftrightarrow>
      (\<forall>kv \<in> set (metadata s). status (snd kv) \<notin> {Waiting, Downloading})"
    by (simp add: status_route_def Let_def list_all_iff)
  have b: "(s_waiting (status_route inputs s) = 0 \<and> s_downloading (status_route inputs s) = 0) \<longleftrightarrow>
      (\<forall>kv \<in> set (metadata s). status (snd kv) \<notin> {Waiting, Downloading})"
    by (auto simp: status_route_def Let_def filter_empty_conv)
  show ?thesis
    unfolding b unfolding a terminal_iff by simp
qed

theorem status_done_iff_witness:
  "\<not> s_done (status_route ex_inputs (main ex_inputs))
   \<and> s_waiting (status_route ex_inputs (main ex_inputs)) = 3
   \<and> s_done (status_route ex_one one_done)
   \<and> s_waiting (status_route ex_one one_done) = 0
   \<and> s_downloading (status_route ex_one one_done) = 0"
  using status_done_iff[of ex_inputs "main ex_inputs"] status_done_iff[of ex_one one_done]
  by (simp add: main_ex one_done_metadata initial_meta_def status_route_def)

end
